theory Spec2Isabelle
  imports Main
begin

section \<open>Enumerations and exceptions\<close>

text \<open>
  The \<open>PetStatus\<close> enum (\<open>common/enums\<close>). Its members are string valued; the string
  is what a template literal prints.
\<close>

datatype PetStatus = AVAILABLE | PENDING | IN_CUSTODY | ADOPTED

fun PetStatus_str :: "PetStatus \<Rightarrow> string" where
  "PetStatus_str AVAILABLE = ''AVAILABLE''"
| "PetStatus_str PENDING = ''PENDING''"
| "PetStatus_str IN_CUSTODY = ''IN_CUSTODY''"
| "PetStatus_str ADOPTED = ''ADOPTED''"

text \<open>\<open>Object.values(PetStatus)\<close>, in declaration order.\<close>

definition PetStatus_values :: "PetStatus list" where
  "PetStatus_values = [AVAILABLE, PENDING, IN_CUSTODY, ADOPTED]"

text \<open>
  Modelled from the spec: the \<open>UserRole\<close> enum, whose declaration is not among the
  sources. The data model gives \<open>role \<in> {USER, SHELTER, ADMIN}\<close>; the service and the
  validator only ever compare a role with \<open>UserRole.ADMIN\<close>.
\<close>

datatype UserRole = USER | SHELTER | ADMIN

text \<open>
  The exceptions a call can end with, each carrying its message. \<open>PrismaRecordNotFound\<close>
  is the rejection of \<open>prisma.pet.update\<close> when no row has the given id.
  \<open>InternalServerErrorException\<close> is what the adoption controller throws when the
  approval event cannot be recorded. \<open>ConflictException\<close> is the error kind \<open>Conflict\<close>
  of the specification; no statement of the sources constructs it.
\<close>

datatype exn =
    NotFoundException string
  | BadRequestException string
  | ForbiddenException string
  | InternalServerErrorException string
  | ConflictException string
  | PrismaRecordNotFound

section \<open>StatusTransitionValidator\<close>

text \<open>
  The two static tables are objects keyed by status; an association list keeps the
  insertion order that \<open>Object.values\<close> follows.
\<close>

definition ALLOWED_TRANSITIONS :: "(PetStatus \<times> PetStatus list) list" where
  "ALLOWED_TRANSITIONS =
     [(AVAILABLE, [PENDING, IN_CUSTODY]),
      (PENDING, [ADOPTED, AVAILABLE]),
      (IN_CUSTODY, [AVAILABLE]),
      (ADOPTED, [])]"

definition ADMIN_ONLY_TRANSITIONS :: "(PetStatus \<times> PetStatus list) list" where
  "ADMIN_ONLY_TRANSITIONS =
     [(AVAILABLE, []),
      (PENDING, []),
      (IN_CUSTODY, []),
      (ADOPTED, [AVAILABLE])]"

text \<open>\<open>table[key] || []\<close>: a missing key reads as the empty array.\<close>

definition lookup_or_empty :: "(PetStatus \<times> PetStatus list) list \<Rightarrow> PetStatus \<Rightarrow> PetStatus list" where
  "lookup_or_empty table key = (case map_of table key of None \<Rightarrow> [] | Some ts \<Rightarrow> ts)"

definition validate :: "PetStatus \<Rightarrow> PetStatus \<Rightarrow> UserRole option \<Rightarrow> exn + bool" where
  "validate currentStatus newStatus userRole =
     (if currentStatus = newStatus then
        Inl (BadRequestException
          (''Pet status is already '' @ PetStatus_str currentStatus @ ''. No transition needed.''))
      else if currentStatus \<notin> set PetStatus_values then
        Inl (BadRequestException (''Invalid current status: '' @ PetStatus_str currentStatus))
      else if newStatus \<notin> set (concat (map snd ALLOWED_TRANSITIONS)) then
        Inl (BadRequestException (''Invalid new status: '' @ PetStatus_str newStatus))
      else
        let allowedTransitions = lookup_or_empty ALLOWED_TRANSITIONS currentStatus;
            isAllowedTransition = (newStatus \<in> set allowedTransitions)
        in if isAllowedTransition then Inr True
           else
             (case map_of ADMIN_ONLY_TRANSITIONS currentStatus of
                Some adminOnlyTransitions \<Rightarrow>
                  if newStatus \<in> set adminOnlyTransitions then
                    (if userRole = Some ADMIN then Inr True
                     else Inl (BadRequestException
                       (''Cannot change status from '' @ PetStatus_str currentStatus @ '' to ''
                          @ PetStatus_str newStatus @ ''. This action requires ADMIN role.'')))
                  else Inl (BadRequestException
                       (''Cannot change status from '' @ PetStatus_str currentStatus @ '' to ''
                          @ PetStatus_str newStatus @ ''. This transition is not allowed.''))
              | None \<Rightarrow>
                  Inl (BadRequestException
                       (''Cannot change status from '' @ PetStatus_str currentStatus @ '' to ''
                          @ PetStatus_str newStatus @ ''. This transition is not allowed.''))))"

text \<open>
  \<open>Array.from(new Set(xs))\<close>: a \<open>Set\<close> keeps insertion order and ignores a value it
  already holds, so the first occurrence of each element survives.
\<close>

definition Set_add :: "'a list \<Rightarrow> 'a \<Rightarrow> 'a list" where
  "Set_add s x = (if x \<in> set s then s else s @ [x])"

definition Array_from_Set :: "'a list \<Rightarrow> 'a list" where
  "Array_from_Set xs = foldl Set_add [] xs"

definition getAllowedTransitions :: "PetStatus \<Rightarrow> UserRole option \<Rightarrow> PetStatus list" where
  "getAllowedTransitions currentStatus userRole =
     (let standardTransitions = lookup_or_empty ALLOWED_TRANSITIONS currentStatus;
          adminTransitions =
            (if userRole = Some ADMIN then lookup_or_empty ADMIN_ONLY_TRANSITIONS currentStatus
             else [])
      in Array_from_Set (standardTransitions @ adminTransitions))"

section \<open>The store and PetsService\<close>

text \<open>
  A row of the pet table, with the columns the lifecycle reads or writes. The
  \<open>currentOwner\<close> relation that every query includes is determined by \<open>currentOwnerId\<close>
  and is not duplicated here. \<open>updatedAt\<close> is a clock reading.
\<close>

record Pet =
  pet_id :: string
  status :: PetStatus
  currentOwnerId :: string
  updatedAt :: nat

text \<open>
  The state a service call runs against: the pet table keyed by id, and the lines
  written by \<open>console.log\<close>.
\<close>

record world =
  pets :: "string \<rightharpoonup> Pet"
  console :: "string list"

definition prisma_pet_findUnique :: "world \<Rightarrow> string \<Rightarrow> Pet option" where
  "prisma_pet_findUnique w petId = pets w petId"

text \<open>
  \<open>prisma.pet.update({where: {id}, data: {status, updatedAt}})\<close>: the only condition
  is on the id; \<open>now\<close> is the value of \<open>new Date()\<close>.
\<close>

definition prisma_pet_update :: "world \<Rightarrow> string \<Rightarrow> PetStatus \<Rightarrow> nat \<Rightarrow> exn + (Pet \<times> world)" where
  "prisma_pet_update w petId newStatus now =
     (case pets w petId of
        None \<Rightarrow> Inl PrismaRecordNotFound
      | Some p \<Rightarrow>
          let updatedPet = p\<lparr>status := newStatus, updatedAt := now\<rparr>
          in Inr (updatedPet, w\<lparr>pets := (pets w)(petId \<mapsto> updatedPet)\<rparr>))"

definition getPetById :: "world \<Rightarrow> string \<Rightarrow> exn + Pet" where
  "getPetById w petId =
     (case prisma_pet_findUnique w petId of
        None \<Rightarrow> Inl (NotFoundException (''Pet with ID '' @ petId @ '' not found''))
      | Some pet \<Rightarrow> Inr pet)"

definition authorizeStatusUpdate :: "Pet \<Rightarrow> PetStatus \<Rightarrow> string \<Rightarrow> UserRole \<Rightarrow> exn + unit" where
  "authorizeStatusUpdate pet newStatus userId userRole =
     (if newStatus = ADOPTED \<or> newStatus = AVAILABLE then
        (if userRole \<noteq> ADMIN then
           Inl (ForbiddenException
             (''Only administrators can change pet status to '' @ PetStatus_str newStatus))
         else Inr ())
      else Inr ())"

text \<open>
  JavaScript truthiness of an optional string: \<open>undefined\<close> and the empty string are
  falsy.
\<close>

definition truthy :: "string option \<Rightarrow> bool" where
  "truthy s = (case s of None \<Rightarrow> False | Some t \<Rightarrow> t \<noteq> [])"

text \<open>The arrow U+2192 of the log line, as its three UTF-8 bytes.\<close>

definition arrow :: string where
  "arrow = [CHR 0xE2, CHR 0x86, CHR 0x92]"

definition status_change_line ::
  "string \<Rightarrow> PetStatus \<Rightarrow> PetStatus \<Rightarrow> string option \<Rightarrow> string option \<Rightarrow> string" where
  "status_change_line petId oldStatus newStatus userId reason =
     ''[PET STATUS CHANGE] '' @ petId @ '': '' @ PetStatus_str oldStatus @ '' '' @ arrow @ '' ''
       @ PetStatus_str newStatus
       @ (if truthy userId then '' by '' @ the userId else '' (system)'')
       @ (if truthy reason then '' - '' @ the reason else [])"

definition logStatusChange ::
  "world \<Rightarrow> string \<Rightarrow> PetStatus \<Rightarrow> PetStatus \<Rightarrow> string option \<Rightarrow> string option \<Rightarrow> world" where
  "logStatusChange w petId oldStatus newStatus userId reason =
     w\<lparr>console := console w @ [status_change_line petId oldStatus newStatus userId reason]\<rparr>"

text \<open>
  \<open>updatePetStatus\<close> suspends twice: at \<open>await this.getPetById\<close> and at
  \<open>await this.prisma.pet.update\<close>. Everything between the two runs on the pet that
  was loaded. The two halves are given separately, so that the store the write meets
  need not be the store the load saw; \<open>updatePetStatus\<close> itself is the call running
  alone.
\<close>

definition updatePetStatus_checks ::
  "world \<Rightarrow> string \<Rightarrow> PetStatus \<Rightarrow> string \<Rightarrow> UserRole \<Rightarrow> exn + Pet" where
  "updatePetStatus_checks w petId newStatus userId userRole =
     (case getPetById w petId of
        Inl e \<Rightarrow> Inl e
      | Inr pet \<Rightarrow>
          (case validate (status pet) newStatus (Some userRole) of
             Inl e \<Rightarrow> Inl e
           | Inr _ \<Rightarrow>
               (case authorizeStatusUpdate pet newStatus userId userRole of
                  Inl e \<Rightarrow> Inl e
                | Inr _ \<Rightarrow> Inr pet)))"

definition updatePetStatus_write ::
  "Pet \<Rightarrow> world \<Rightarrow> string \<Rightarrow> PetStatus \<Rightarrow> string \<Rightarrow> string option \<Rightarrow> nat \<Rightarrow> exn + (Pet \<times> world)" where
  "updatePetStatus_write pet w petId newStatus userId reason now =
     (case prisma_pet_update w petId newStatus now of
        Inl e \<Rightarrow> Inl e
      | Inr (updatedPet, w') \<Rightarrow>
          Inr (updatedPet, logStatusChange w' petId (status pet) newStatus (Some userId) reason))"

definition updatePetStatus ::
  "world \<Rightarrow> string \<Rightarrow> PetStatus \<Rightarrow> string \<Rightarrow> UserRole \<Rightarrow> string option \<Rightarrow> nat \<Rightarrow> exn + (Pet \<times> world)" where
  "updatePetStatus w petId newStatus userId userRole reason now =
     (case updatePetStatus_checks w petId newStatus userId userRole of
        Inl e \<Rightarrow> Inl e
      | Inr pet \<Rightarrow> updatePetStatus_write pet w petId newStatus userId reason now)"

text \<open>\<open>reason || 'System-triggered status change'\<close>.\<close>

definition reason_or_default :: "string option \<Rightarrow> string" where
  "reason_or_default reason =
     (if truthy reason then the reason else ''System-triggered status change'')"

definition changeStatusInternal ::
  "world \<Rightarrow> string \<Rightarrow> PetStatus \<Rightarrow> string option \<Rightarrow> nat \<Rightarrow> exn + (Pet \<times> world)" where
  "changeStatusInternal w petId newStatus reason now =
     (case getPetById w petId of
        Inl e \<Rightarrow> Inl e
      | Inr pet \<Rightarrow>
          (case validate (status pet) newStatus (Some ADMIN) of
             Inl e \<Rightarrow> Inl e
           | Inr _ \<Rightarrow>
               (case prisma_pet_update w petId newStatus now of
                  Inl e \<Rightarrow> Inl e
                | Inr (updatedPet, w') \<Rightarrow>
                    Inr (updatedPet,
                         logStatusChange w' petId (status pet) newStatus None
                           (Some (reason_or_default reason))))))"

section \<open>The edge table of the specification\<close>

text \<open>
  The static edge table as the specification writes it, one function per column. The
  validator's two records are compared with these below.
\<close>

fun ordinary_targets :: "PetStatus \<Rightarrow> PetStatus list" where
  "ordinary_targets AVAILABLE = [PENDING, IN_CUSTODY]"
| "ordinary_targets PENDING = [ADOPTED, AVAILABLE]"
| "ordinary_targets IN_CUSTODY = [AVAILABLE]"
| "ordinary_targets ADOPTED = []"

fun elevated_only_targets :: "PetStatus \<Rightarrow> PetStatus list" where
  "elevated_only_targets ADOPTED = [AVAILABLE]"
| "elevated_only_targets _ = []"

definition in_edge_table :: "PetStatus \<Rightarrow> PetStatus \<Rightarrow> bool" where
  "in_edge_table f t = (t \<in> set (ordinary_targets f) \<or> t \<in> set (elevated_only_targets f))"

section \<open>Two calls in flight\<close>

text \<open>
  Two \<open>updatePetStatus\<close> calls on the same pet, scheduled so that both have loaded and
  checked the pet before either reaches its write: load A, load B, write A, write B.
  \<open>resume_write\<close> continues one call after its checks, on the store as it is by then.
\<close>

definition resume_write ::
  "exn + Pet \<Rightarrow> world \<Rightarrow> string \<Rightarrow> PetStatus \<Rightarrow> string \<Rightarrow> string option \<Rightarrow> nat
     \<Rightarrow> (exn + Pet) \<times> world" where
  "resume_write loaded w petId newStatus userId reason now =
     (case loaded of
        Inl e \<Rightarrow> (Inl e, w)
      | Inr pet \<Rightarrow>
          (case updatePetStatus_write pet w petId newStatus userId reason now of
             Inl e \<Rightarrow> (Inl e, w)
           | Inr (updatedPet, w') \<Rightarrow> (Inr updatedPet, w')))"

definition updatePetStatus_interleaved ::
  "world \<Rightarrow> string
     \<Rightarrow> PetStatus \<times> string \<times> UserRole \<times> string option \<times> nat
     \<Rightarrow> PetStatus \<times> string \<times> UserRole \<times> string option \<times> nat
     \<Rightarrow> (exn + Pet) \<times> (exn + Pet) \<times> world" where
  "updatePetStatus_interleaved w petId callA callB =
     (case callA of (statusA, userA, roleA, reasonA, nowA) \<Rightarrow>
      case callB of (statusB, userB, roleB, reasonB, nowB) \<Rightarrow>
        let loadedA = updatePetStatus_checks w petId statusA userA roleA;
            loadedB = updatePetStatus_checks w petId statusB userB roleB;
            (resultA, w1) = resume_write loadedA w petId statusA userA reasonA nowA;
            (resultB, w2) = resume_write loadedB w1 petId statusB userB reasonB nowB
        in (resultA, resultB, w2))"

section \<open>Adoption approval\<close>

text \<open>
  Modelled from the spec: the adoption's own lifecycle (requested, approved, completed,
  or rejected); the \<open>AdoptionStatus\<close> enum of the adoption state machine is not among
  the sources.
\<close>

datatype AdoptionStatus = REQUESTED | APPROVED | COMPLETED | REJECTED

text \<open>
  Modelled from the spec: an adoption row, with its status and its references to a pet,
  an adopter and an owner; the table's declaration is not among the sources.
\<close>

record Adoption =
  adoption_id :: string
  adoption_status :: AdoptionStatus
  adoption_petId :: string
  adopterId :: string
  ownerId :: string







section \<open>Concrete stores\<close>

text \<open>A store holding one pet in a given status, and one with a requested adoption of it.\<close>

definition pet_in :: "PetStatus \<Rightarrow> Pet" where
  "pet_in s = \<lparr>pet_id = ''pet-1'', status = s, currentOwnerId = ''owner-1'', updatedAt = 0\<rparr>"

definition world_with :: "PetStatus \<Rightarrow> world" where
  "world_with s = \<lparr>pets = [''pet-1'' \<mapsto> pet_in s], console = []\<rparr>"






section \<open>The validator against the edge table\<close>

lemma ALLOWED_is_ordinary: "lookup_or_empty ALLOWED_TRANSITIONS s = ordinary_targets s"
  by (cases s) (simp_all add: lookup_or_empty_def ALLOWED_TRANSITIONS_def)

lemma ADMIN_ONLY_is_elevated: "lookup_or_empty ADMIN_ONLY_TRANSITIONS s = elevated_only_targets s"
  by (cases s) (simp_all add: lookup_or_empty_def ADMIN_ONLY_TRANSITIONS_def)

lemma map_of_ADMIN_ONLY:
  "map_of ADMIN_ONLY_TRANSITIONS s = Some (lookup_or_empty ADMIN_ONLY_TRANSITIONS s)"
  by (cases s) (simp_all add: lookup_or_empty_def ADMIN_ONLY_TRANSITIONS_def)

lemma flat_targets: "set (concat (map snd ALLOWED_TRANSITIONS)) = UNIV"
proof -
  have "t \<in> set (concat (map snd ALLOWED_TRANSITIONS))" for t
    by (cases t) (simp_all add: ALLOWED_TRANSITIONS_def)
  then show ?thesis by blast
qed

lemma values_all: "set PetStatus_values = UNIV"
proof -
  have "t \<in> set PetStatus_values" for t
    by (cases t) (simp_all add: PetStatus_values_def)
  then show ?thesis by blast
qed

lemma ordinary_distinct: "distinct (ordinary_targets s @ elevated_only_targets s)"
  by (cases s) simp_all

lemma ordinary_not_self: "s \<notin> set (ordinary_targets s)" "s \<notin> set (elevated_only_targets s)"
  by (cases s; simp)+

text \<open>
  On the four statuses the two value checks of \<open>validate\<close> always pass, and what is left
  is a lookup in the two columns of the edge table.
\<close>

lemma validate_spec:
  "validate c n r =
     (if c = n then Inl (BadRequestException
          (''Pet status is already '' @ PetStatus_str c @ ''. No transition needed.''))
      else if n \<in> set (ordinary_targets c) then Inr True
      else if n \<in> set (elevated_only_targets c) then
        (if r = Some ADMIN then Inr True
         else Inl (BadRequestException
                (''Cannot change status from '' @ PetStatus_str c @ '' to ''
                   @ PetStatus_str n @ ''. This action requires ADMIN role.'')))
      else Inl (BadRequestException
                (''Cannot change status from '' @ PetStatus_str c @ '' to ''
                   @ PetStatus_str n @ ''. This transition is not allowed.'')))"
proof -
  have "validate c n r =
     (if c = n then Inl (BadRequestException
          (''Pet status is already '' @ PetStatus_str c @ ''. No transition needed.''))
      else if n \<in> set (lookup_or_empty ALLOWED_TRANSITIONS c) then Inr True
      else if n \<in> set (lookup_or_empty ADMIN_ONLY_TRANSITIONS c) then
        (if r = Some ADMIN then Inr True
         else Inl (BadRequestException
                (''Cannot change status from '' @ PetStatus_str c @ '' to ''
                   @ PetStatus_str n @ ''. This action requires ADMIN role.'')))
      else Inl (BadRequestException
                (''Cannot change status from '' @ PetStatus_str c @ '' to ''
                   @ PetStatus_str n @ ''. This transition is not allowed.'')))"
    unfolding validate_def Let_def flat_targets values_all map_of_ADMIN_ONLY
    by simp
  then show ?thesis
    by (simp only: ALLOWED_is_ordinary ADMIN_ONLY_is_elevated)
qed

lemma foldl_Set_add_fresh:
  "distinct (acc @ xs) \<Longrightarrow> foldl Set_add acc xs = acc @ xs"
  by (induction xs arbitrary: acc) (auto simp: Set_add_def)

section \<open>Single steps of the service\<close>

lemma getPetById_Some: "pets w petId = Some p \<Longrightarrow> getPetById w petId = Inr p"
  by (simp add: getPetById_def prisma_pet_findUnique_def)

lemma getPetById_None:
  "pets w petId = None \<Longrightarrow>
   getPetById w petId = Inl (NotFoundException (''Pet with ID '' @ petId @ '' not found''))"
  by (simp add: getPetById_def prisma_pet_findUnique_def)

lemma prisma_pet_update_Some:
  "pets w petId = Some p \<Longrightarrow>
   prisma_pet_update w petId newStatus now =
     Inr (p\<lparr>status := newStatus, updatedAt := now\<rparr>,
          w\<lparr>pets := (pets w)(petId \<mapsto> p\<lparr>status := newStatus, updatedAt := now\<rparr>)\<rparr>)"
  by (simp add: prisma_pet_update_def Let_def)

lemma checks_Inr_loaded:
  "updatePetStatus_checks w petId s u r = Inr pet \<Longrightarrow> pets w petId = Some pet"
  by (auto simp: updatePetStatus_checks_def getPetById_def prisma_pet_findUnique_def
      split: option.splits sum.splits)

lemma updatePetStatus_write_Some:
  "pets w petId = Some p \<Longrightarrow>
   updatePetStatus_write pet w petId newStatus userId reason now =
     Inr (p\<lparr>status := newStatus, updatedAt := now\<rparr>,
          logStatusChange
            (w\<lparr>pets := (pets w)(petId \<mapsto> p\<lparr>status := newStatus, updatedAt := now\<rparr>)\<rparr>)
            petId (status pet) newStatus (Some userId) reason)"
  by (simp add: updatePetStatus_write_def prisma_pet_update_Some)

lemma updatePetStatus_not_Conflict:
  "updatePetStatus w petId newStatus userId userRole reason now \<noteq> Inl (ConflictException m)"
proof (cases "pets w petId")
  case None
  then show ?thesis
    by (simp add: updatePetStatus_def updatePetStatus_checks_def getPetById_None)
next
  case (Some p)
  then show ?thesis
    by (simp add: updatePetStatus_def updatePetStatus_checks_def getPetById_Some validate_spec
        authorizeStatusUpdate_def updatePetStatus_write_Some)
qed

lemma updatePetStatus_checks_not_Conflict:
  "updatePetStatus_checks w petId newStatus userId userRole \<noteq> Inl (ConflictException m)"
proof (cases "pets w petId")
  case None
  then show ?thesis
    by (simp add: updatePetStatus_checks_def getPetById_None)
next
  case (Some p)
  then show ?thesis
    by (simp add: updatePetStatus_checks_def getPetById_Some validate_spec
        authorizeStatusUpdate_def)
qed

lemma updatePetStatus_write_not_Conflict:
  "updatePetStatus_write pet w petId newStatus userId reason now \<noteq> Inl (ConflictException m)"
  by (cases "pets w petId")
     (simp_all add: updatePetStatus_write_def prisma_pet_update_def Let_def)

lemma resume_write_not_Conflict:
  "loaded \<noteq> Inl (ConflictException m) \<Longrightarrow>
   fst (resume_write loaded w petId newStatus userId reason now) \<noteq> Inl (ConflictException m)"
  using updatePetStatus_write_not_Conflict [of _ w petId newStatus userId reason now m]
  by (auto simp: resume_write_def split: sum.splits prod.splits)

lemma interleaved_not_Conflict:
  "fst (updatePetStatus_interleaved w petId callA callB) \<noteq> Inl (ConflictException m)"
  "fst (snd (updatePetStatus_interleaved w petId callA callB)) \<noteq> Inl (ConflictException m)"
proof -
  obtain statusA userA roleA reasonA nowA where a: "callA = (statusA, userA, roleA, reasonA, nowA)"
    by (cases callA)
  obtain statusB userB roleB reasonB nowB where b: "callB = (statusB, userB, roleB, reasonB, nowB)"
    by (cases callB)
  let ?rA = "resume_write (updatePetStatus_checks w petId statusA userA roleA)
               w petId statusA userA reasonA nowA"
  let ?rB = "resume_write (updatePetStatus_checks w petId statusB userB roleB)
               (snd ?rA) petId statusB userB reasonB nowB"
  have eq: "updatePetStatus_interleaved w petId callA callB = (fst ?rA, fst ?rB, snd ?rB)"
    by (simp add: updatePetStatus_interleaved_def a b Let_def split: prod.splits)
  have "fst ?rA \<noteq> Inl (ConflictException m)"
    by (rule resume_write_not_Conflict) (rule updatePetStatus_checks_not_Conflict)
  moreover have "fst ?rB \<noteq> Inl (ConflictException m)"
    by (rule resume_write_not_Conflict) (rule updatePetStatus_checks_not_Conflict)
  ultimately show
    "fst (updatePetStatus_interleaved w petId callA callB) \<noteq> Inl (ConflictException m)"
    "fst (snd (updatePetStatus_interleaved w petId callA callB)) \<noteq> Inl (ConflictException m)"
    by (simp_all add: eq)
qed

lemma changeStatusInternal_Some:
  assumes "pets w petId = Some p"
  shows "changeStatusInternal w petId newStatus reason now =
           (if in_edge_table (status p) newStatus then
              Inr (p\<lparr>status := newStatus, updatedAt := now\<rparr>,
                   logStatusChange
                     (w\<lparr>pets := (pets w)(petId \<mapsto> p\<lparr>status := newStatus, updatedAt := now\<rparr>)\<rparr>)
                     petId (status p) newStatus None (Some (reason_or_default reason)))
            else
              Inl (BadRequestException
                (if status p = newStatus then
                   ''Pet status is already '' @ PetStatus_str (status p) @ ''. No transition needed.''
                 else ''Cannot change status from '' @ PetStatus_str (status p) @ '' to ''
                        @ PetStatus_str newStatus @ ''. This transition is not allowed.'')))"
  using assms ordinary_not_self [of "status p"]
  by (auto simp add: changeStatusInternal_def getPetById_Some validate_spec
      in_edge_table_def prisma_pet_update_Some)

section \<open>The write and its condition\<close>

text \<open>
  C1, as the claim states it, fails on the service: with a pet in AVAILABLE, a USER's
  request for PENDING and a SHELTER's request for IN_CUSTODY that have both loaded the
  pet both commit. The second write meets a stored status (PENDING) that is not the one
  it observed (AVAILABLE), is applied all the same, and neither call ends with Conflict.
\<close>

theorem conditioned_write_counterexample:
  "updatePetStatus_interleaved (world_with AVAILABLE) ''pet-1''
     (PENDING, ''user-1'', USER, None, 1) (IN_CUSTODY, ''shelter-1'', SHELTER, None, 2) =
   (Inr \<lparr>pet_id = ''pet-1'', status = PENDING, currentOwnerId = ''owner-1'', updatedAt = 1\<rparr>,
    Inr \<lparr>pet_id = ''pet-1'', status = IN_CUSTODY, currentOwnerId = ''owner-1'', updatedAt = 2\<rparr>,
    \<lparr>pets = [''pet-1'' \<mapsto> \<lparr>pet_id = ''pet-1'', status = IN_CUSTODY,
                          currentOwnerId = ''owner-1'', updatedAt = 2\<rparr>],
     console = [''[PET STATUS CHANGE] pet-1: AVAILABLE '' @ arrow @ '' PENDING by user-1'',
                ''[PET STATUS CHANGE] pet-1: AVAILABLE '' @ arrow @ '' IN_CUSTODY by shelter-1'']\<rparr>)"
  by (simp add: updatePetStatus_interleaved_def resume_write_def updatePetStatus_checks_def
      updatePetStatus_write_def prisma_pet_update_def authorizeStatusUpdate_def getPetById_def
      prisma_pet_findUnique_def world_with_def pet_in_def validate_def Let_def
      PetStatus_values_def ALLOWED_TRANSITIONS_def ADMIN_ONLY_TRANSITIONS_def lookup_or_empty_def
      logStatusChange_def status_change_line_def truthy_def)

text \<open>
  C1, amended: the write of \<open>updatePetStatus\<close> is conditioned on the pet's id only.
  \<^item> No call of \<open>updatePetStatus\<close> ends with Conflict, whatever the store and the
    arguments, and neither of two calls in flight does.
  \<^item> A call that has loaded a pet and reaches its write applies it whenever a row with
    the id is still stored, whatever status that row has by then and whatever status
    was loaded: the stored row gets the requested status, and the log line records the
    status that was loaded.
  \<^item> Of two calls on the same pet that have both passed their checks, both loaded the
    same pet, both writes are applied in turn, both calls return their updated pet, and
    the store ends with the status of the later write.
\<close>

theorem updatePetStatus_write_unconditional:
  "updatePetStatus w petId newStatus userId userRole reason now \<noteq> Inl (ConflictException m)
   \<and> fst (updatePetStatus_interleaved w petId callA callB) \<noteq> Inl (ConflictException m)
   \<and> fst (snd (updatePetStatus_interleaved w petId callA callB)) \<noteq> Inl (ConflictException m)
   \<and> (pets w' petId = Some stored \<longrightarrow>
        updatePetStatus_write loaded w' petId newStatus userId reason now =
          Inr (stored\<lparr>status := newStatus, updatedAt := now\<rparr>,
               logStatusChange
                 (w'\<lparr>pets := (pets w')(petId \<mapsto> stored\<lparr>status := newStatus, updatedAt := now\<rparr>)\<rparr>)
                 petId (status loaded) newStatus (Some userId) reason))
   \<and> (updatePetStatus_checks w petId statusA userA roleA = Inr petA
        \<and> updatePetStatus_checks w petId statusB userB roleB = Inr petB \<longrightarrow>
        petB = petA
        \<and> updatePetStatus_interleaved w petId
             (statusA, userA, roleA, reasonA, nowA) (statusB, userB, roleB, reasonB, nowB) =
           (Inr (petA\<lparr>status := statusA, updatedAt := nowA\<rparr>),
            Inr (petA\<lparr>status := statusB, updatedAt := nowB\<rparr>),
            w\<lparr>pets := (pets w)(petId \<mapsto> petA\<lparr>status := statusB, updatedAt := nowB\<rparr>),
              console := console w @
                [status_change_line petId (status petA) statusA (Some userA) reasonA,
                 status_change_line petId (status petA) statusB (Some userB) reasonB]\<rparr>))"
proof -
  have two: "petB = petA
        \<and> updatePetStatus_interleaved w petId
             (statusA, userA, roleA, reasonA, nowA) (statusB, userB, roleB, reasonB, nowB) =
           (Inr (petA\<lparr>status := statusA, updatedAt := nowA\<rparr>),
            Inr (petA\<lparr>status := statusB, updatedAt := nowB\<rparr>),
            w\<lparr>pets := (pets w)(petId \<mapsto> petA\<lparr>status := statusB, updatedAt := nowB\<rparr>),
              console := console w @
                [status_change_line petId (status petA) statusA (Some userA) reasonA,
                 status_change_line petId (status petA) statusB (Some userB) reasonB]\<rparr>)"
    if A: "updatePetStatus_checks w petId statusA userA roleA = Inr petA"
    and B: "updatePetStatus_checks w petId statusB userB roleB = Inr petB"
  proof -
    have p: "pets w petId = Some petA"
      using A by (rule checks_Inr_loaded)
    have same: "petB = petA"
      using checks_Inr_loaded [OF B] p by simp
    let ?pA = "petA\<lparr>status := statusA, updatedAt := nowA\<rparr>"
    let ?w1 = "logStatusChange (w\<lparr>pets := (pets w)(petId \<mapsto> ?pA)\<rparr>)
                 petId (status petA) statusA (Some userA) reasonA"
    have stepA: "resume_write (Inr petA) w petId statusA userA reasonA nowA = (Inr ?pA, ?w1)"
      by (simp add: resume_write_def updatePetStatus_write_Some [OF p])
    have p1: "pets ?w1 petId = Some ?pA"
      by (simp add: logStatusChange_def)
    have stepB: "resume_write (Inr petA) ?w1 petId statusB userB reasonB nowB =
                   (Inr (?pA\<lparr>status := statusB, updatedAt := nowB\<rparr>),
                    logStatusChange
                      (?w1\<lparr>pets := (pets ?w1)(petId \<mapsto> ?pA\<lparr>status := statusB, updatedAt := nowB\<rparr>)\<rparr>)
                      petId (status petA) statusB (Some userB) reasonB)"
      by (simp only: resume_write_def updatePetStatus_write_Some [OF p1] sum.case prod.case)
    have "updatePetStatus_interleaved w petId
             (statusA, userA, roleA, reasonA, nowA) (statusB, userB, roleB, reasonB, nowB) =
           (Inr (petA\<lparr>status := statusA, updatedAt := nowA\<rparr>),
            Inr (petA\<lparr>status := statusB, updatedAt := nowB\<rparr>),
            w\<lparr>pets := (pets w)(petId \<mapsto> petA\<lparr>status := statusB, updatedAt := nowB\<rparr>),
              console := console w @
                [status_change_line petId (status petA) statusA (Some userA) reasonA,
                 status_change_line petId (status petA) statusB (Some userB) reasonB]\<rparr>)"
      unfolding updatePetStatus_interleaved_def prod.case A B [unfolded same] Let_def stepA stepB
      by (simp add: logStatusChange_def)
    with same show ?thesis by blast
  qed
  show ?thesis
    using updatePetStatus_not_Conflict [of w petId newStatus userId userRole reason now m]
      interleaved_not_Conflict [of w petId callA callB m]
      updatePetStatus_write_Some [of w' petId stored loaded newStatus userId reason now]
      two
    by blast
qed

text \<open>
  The amended C1 at concrete inputs. A call that loaded the pet as AVAILABLE and asks
  for IN_CUSTODY writes onto a store where the pet has meanwhile become ADOPTED, a pair
  that is not an edge of the table. A pet in PENDING and two administrators, one
  approving and one rejecting the adoption: both calls return, the pet ends AVAILABLE.
\<close>

theorem updatePetStatus_write_unconditional_witness:
  "pets (world_with ADOPTED) ''pet-1'' = Some (pet_in ADOPTED)
   \<and> updatePetStatus_write (pet_in AVAILABLE) (world_with ADOPTED) ''pet-1'' IN_CUSTODY
         ''shelter-1'' None 3 =
       Inr (\<lparr>pet_id = ''pet-1'', status = IN_CUSTODY, currentOwnerId = ''owner-1'', updatedAt = 3\<rparr>,
            \<lparr>pets = [''pet-1'' \<mapsto> \<lparr>pet_id = ''pet-1'', status = IN_CUSTODY,
                                  currentOwnerId = ''owner-1'', updatedAt = 3\<rparr>],
             console = [''[PET STATUS CHANGE] pet-1: AVAILABLE '' @ arrow
                          @ '' IN_CUSTODY by shelter-1'']\<rparr>)
   \<and> updatePetStatus_checks (world_with PENDING) ''pet-1'' ADOPTED ''admin-1'' ADMIN = Inr (pet_in PENDING)
   \<and> updatePetStatus_checks (world_with PENDING) ''pet-1'' AVAILABLE ''admin-2'' ADMIN = Inr (pet_in PENDING)
   \<and> updatePetStatus_interleaved (world_with PENDING) ''pet-1''
       (ADOPTED, ''admin-1'', ADMIN, None, 1) (AVAILABLE, ''admin-2'', ADMIN, None, 2) =
     (Inr \<lparr>pet_id = ''pet-1'', status = ADOPTED, currentOwnerId = ''owner-1'', updatedAt = 1\<rparr>,
      Inr \<lparr>pet_id = ''pet-1'', status = AVAILABLE, currentOwnerId = ''owner-1'', updatedAt = 2\<rparr>,
      \<lparr>pets = [''pet-1'' \<mapsto> \<lparr>pet_id = ''pet-1'', status = AVAILABLE,
                            currentOwnerId = ''owner-1'', updatedAt = 2\<rparr>],
       console = [''[PET STATUS CHANGE] pet-1: PENDING '' @ arrow @ '' ADOPTED by admin-1'',
                  ''[PET STATUS CHANGE] pet-1: PENDING '' @ arrow @ '' AVAILABLE by admin-2'']\<rparr>)"
proof -
  have A: "updatePetStatus_checks (world_with PENDING) ''pet-1'' ADOPTED ''admin-1'' ADMIN
             = Inr (pet_in PENDING)"
    by (simp add: updatePetStatus_checks_def getPetById_def prisma_pet_findUnique_def
        world_with_def validate_spec pet_in_def authorizeStatusUpdate_def)
  have B: "updatePetStatus_checks (world_with PENDING) ''pet-1'' AVAILABLE ''admin-2'' ADMIN
             = Inr (pet_in PENDING)"
    by (simp add: updatePetStatus_checks_def getPetById_def prisma_pet_findUnique_def
        world_with_def validate_spec pet_in_def authorizeStatusUpdate_def)
  have S: "pets (world_with ADOPTED) ''pet-1'' = Some (pet_in ADOPTED)"
    by (simp add: world_with_def)
  show ?thesis
    using A B S
      updatePetStatus_write_unconditional [where w = "world_with PENDING" and petId = "''pet-1''"
        and w' = "world_with ADOPTED" and stored = "pet_in ADOPTED" and loaded = "pet_in AVAILABLE"
        and newStatus = IN_CUSTODY and userId = "''shelter-1''" and reason = None and now = 3
        and statusA = ADOPTED and userA = "''admin-1''" and roleA = ADMIN and petA = "pet_in PENDING"
        and statusB = AVAILABLE and userB = "''admin-2''" and roleB = ADMIN and petB = "pet_in PENDING"
        and reasonA = None and nowA = 1 and reasonB = None and nowB = 2]
    by (simp add: world_with_def pet_in_def status_change_line_def truthy_def
        logStatusChange_def)
qed

section \<open>Pairs outside the edge table\<close>

text \<open>
  C2: for an existing pet in status \<open>from\<close> and a requested status \<open>to\<close> with the pair
  \<open>(from, to)\<close> not in the edge table, \<open>updatePetStatus\<close> fails with the invalid
  transition error (BadRequestException) for every user id, role, reason and time; the
  four pairs with \<open>from = to\<close> are among them and get the message of the no-op case.
\<close>

theorem updatePetStatus_off_table:
  assumes "pets w petId = Some p" and "\<not> in_edge_table (status p) newStatus"
  shows "updatePetStatus w petId newStatus userId userRole reason now =
           Inl (BadRequestException
             (if status p = newStatus then
                ''Pet status is already '' @ PetStatus_str (status p) @ ''. No transition needed.''
              else ''Cannot change status from '' @ PetStatus_str (status p) @ '' to ''
                     @ PetStatus_str newStatus @ ''. This transition is not allowed.''))"
  using assms
  by (simp add: updatePetStatus_def updatePetStatus_checks_def getPetById_Some validate_spec
      in_edge_table_def)

text \<open>C2 at a pet in custody for which an administrator requests ADOPTED.\<close>

theorem updatePetStatus_off_table_witness:
  "pets (world_with IN_CUSTODY) ''pet-1'' = Some (pet_in IN_CUSTODY)
   \<and> \<not> in_edge_table (status (pet_in IN_CUSTODY)) ADOPTED
   \<and> updatePetStatus (world_with IN_CUSTODY) ''pet-1'' ADOPTED ''admin-1'' ADMIN None 1 =
       Inl (BadRequestException
         ''Cannot change status from IN_CUSTODY to ADOPTED. This transition is not allowed.'')"
  using updatePetStatus_off_table [of "world_with IN_CUSTODY" "''pet-1''" "pet_in IN_CUSTODY"
          ADOPTED "''admin-1''" ADMIN None 1]
  by (simp add: world_with_def pet_in_def in_edge_table_def)

section \<open>The elevated-only edge\<close>

text \<open>
  C3, as the claim states it, fails on the service: for a USER asking to move an adopted
  pet back to AVAILABLE the call ends with BadRequestException, raised by the validator
  before \<open>authorizeStatusUpdate\<close> is reached, and not with ForbiddenException.
\<close>

theorem forbidden_on_elevated_edge_counterexample:
  "updatePetStatus (world_with ADOPTED) ''pet-1'' AVAILABLE ''user-1'' USER None 1 =
     Inl (BadRequestException
       ''Cannot change status from ADOPTED to AVAILABLE. This action requires ADMIN role.'')"
  by (simp add: updatePetStatus_def updatePetStatus_checks_def getPetById_def
      prisma_pet_findUnique_def world_with_def pet_in_def validate_def Let_def
      PetStatus_values_def ALLOWED_TRANSITIONS_def ADMIN_ONLY_TRANSITIONS_def lookup_or_empty_def)

text \<open>
  C3, amended: on the edge ADOPTED to AVAILABLE, a request by an actor whose role is not
  ADMIN is rejected with BadRequestException, its message saying that the action requires
  the ADMIN role, and nothing is written; the same request by an ADMIN succeeds, stores
  AVAILABLE and logs the change.
\<close>

theorem updatePetStatus_adopted_to_available:
  assumes "pets w petId = Some p" and "status p = ADOPTED"
  shows "updatePetStatus w petId AVAILABLE userId userRole reason now =
           (if userRole = ADMIN then
              Inr (p\<lparr>status := AVAILABLE, updatedAt := now\<rparr>,
                   logStatusChange
                     (w\<lparr>pets := (pets w)(petId \<mapsto> p\<lparr>status := AVAILABLE, updatedAt := now\<rparr>)\<rparr>)
                     petId ADOPTED AVAILABLE (Some userId) reason)
            else
              Inl (BadRequestException
                ''Cannot change status from ADOPTED to AVAILABLE. This action requires ADMIN role.''))"
  using assms
  by (simp add: updatePetStatus_def updatePetStatus_checks_def getPetById_Some validate_spec
      authorizeStatusUpdate_def updatePetStatus_write_Some)

text \<open>The amended C3 at an adopted pet, once for a SHELTER actor and once for an ADMIN.\<close>

theorem updatePetStatus_adopted_to_available_witness:
  "pets (world_with ADOPTED) ''pet-1'' = Some (pet_in ADOPTED)
   \<and> status (pet_in ADOPTED) = ADOPTED
   \<and> updatePetStatus (world_with ADOPTED) ''pet-1'' AVAILABLE ''shelter-1'' SHELTER None 1 =
       Inl (BadRequestException
         ''Cannot change status from ADOPTED to AVAILABLE. This action requires ADMIN role.'')
   \<and> updatePetStatus (world_with ADOPTED) ''pet-1'' AVAILABLE ''admin-1'' ADMIN None 1 =
       Inr (\<lparr>pet_id = ''pet-1'', status = AVAILABLE, currentOwnerId = ''owner-1'', updatedAt = 1\<rparr>,
            \<lparr>pets = [''pet-1'' \<mapsto> \<lparr>pet_id = ''pet-1'', status = AVAILABLE,
                                  currentOwnerId = ''owner-1'', updatedAt = 1\<rparr>],
             console = [''[PET STATUS CHANGE] pet-1: ADOPTED '' @ arrow
                          @ '' AVAILABLE by admin-1'']\<rparr>)"
  using updatePetStatus_adopted_to_available [of "world_with ADOPTED" "''pet-1''" "pet_in ADOPTED"
          "''shelter-1''" SHELTER None 1]
        updatePetStatus_adopted_to_available [of "world_with ADOPTED" "''pet-1''" "pet_in ADOPTED"
          "''admin-1''" ADMIN None 1]
  by (simp add: world_with_def pet_in_def logStatusChange_def status_change_line_def truthy_def)

section \<open>Existence first\<close>

text \<open>
  C4: for a pet id that the store does not hold, \<open>updatePetStatus\<close> fails with
  NotFoundException whatever the requested status and whoever the actor: the lookup
  precedes the validator and the authorization.
\<close>

theorem updatePetStatus_missing_pet:
  assumes "pets w petId = None"
  shows "updatePetStatus w petId newStatus userId userRole reason now =
           Inl (NotFoundException (''Pet with ID '' @ petId @ '' not found''))"
  using assms
  by (simp add: updatePetStatus_def updatePetStatus_checks_def getPetById_None)

text \<open>
  C4 for a USER who asks for AVAILABLE on an unknown id, a request that authorization
  would refuse.
\<close>

theorem updatePetStatus_missing_pet_witness:
  "pets (world_with ADOPTED) ''nonexistent-id'' = None
   \<and> updatePetStatus (world_with ADOPTED) ''nonexistent-id'' AVAILABLE ''user-1'' USER None 1 =
       Inl (NotFoundException ''Pet with ID nonexistent-id not found'')"
  using updatePetStatus_missing_pet [of "world_with ADOPTED" "''nonexistent-id''" AVAILABLE
          "''user-1''" USER None 1]
  by (simp add: world_with_def)

section \<open>Adoption approval and the pet\<close>




section \<open>Allowed targets\<close>

text \<open>
  C6: for every status and every role, also an absent one, \<open>getAllowedTransitions\<close>
  returns the ordinary targets of the status followed by the elevated-only targets
  exactly when the role is ADMIN; the list has no duplicates, and for a role other than
  ADMIN it holds no elevated-only target of that status.
\<close>

theorem getAllowedTransitions_targets:
  "getAllowedTransitions s r =
     ordinary_targets s @ (if r = Some ADMIN then elevated_only_targets s else [])
   \<and> distinct (getAllowedTransitions s r)
   \<and> (r \<noteq> Some ADMIN \<longrightarrow>
        (\<forall>t \<in> set (elevated_only_targets s). t \<notin> set (getAllowedTransitions s r)))"
proof -
  let ?xs = "ordinary_targets s @ (if r = Some ADMIN then elevated_only_targets s else [])"
  have d: "distinct ?xs"
    using ordinary_distinct [of s] by simp
  have eq: "getAllowedTransitions s r = ?xs"
    unfolding getAllowedTransitions_def Let_def Array_from_Set_def
      ALLOWED_is_ordinary ADMIN_ONLY_is_elevated
    using foldl_Set_add_fresh [of "[]" ?xs] d by simp
  have "t \<notin> set (ordinary_targets s)" if "t \<in> set (elevated_only_targets s)" for t
    using ordinary_distinct [of s] that by auto
  with eq d show ?thesis by auto
qed

text \<open>C6 at an adopted pet for an ADMIN and for a USER, and at a pending pet with no role.\<close>

theorem getAllowedTransitions_targets_witness:
  "getAllowedTransitions ADOPTED (Some ADMIN) = [AVAILABLE]
   \<and> getAllowedTransitions ADOPTED (Some USER) = []
   \<and> Some USER \<noteq> Some ADMIN
   \<and> elevated_only_targets ADOPTED = [AVAILABLE]
   \<and> AVAILABLE \<notin> set (getAllowedTransitions ADOPTED (Some USER))
   \<and> getAllowedTransitions PENDING None = [ADOPTED, AVAILABLE]"
  using getAllowedTransitions_targets [of ADOPTED "Some ADMIN"]
        getAllowedTransitions_targets [of ADOPTED "Some USER"]
        getAllowedTransitions_targets [of PENDING None]
  by simp

section \<open>The internal transition\<close>

text \<open>
  C7: for an existing pet, \<open>changeStatusInternal\<close> takes every edge of the table, the
  elevated-only one included, with no role asked for: it stores the new status and logs
  the change as a system change. For every pair outside the table it fails with the
  invalid transition error (BadRequestException), as a call from outside does.
\<close>

theorem changeStatusInternal_edge_table:
  assumes "pets w petId = Some p"
  shows "changeStatusInternal w petId newStatus reason now =
           (if in_edge_table (status p) newStatus then
              Inr (p\<lparr>status := newStatus, updatedAt := now\<rparr>,
                   logStatusChange
                     (w\<lparr>pets := (pets w)(petId \<mapsto> p\<lparr>status := newStatus, updatedAt := now\<rparr>)\<rparr>)
                     petId (status p) newStatus None (Some (reason_or_default reason)))
            else
              Inl (BadRequestException
                (if status p = newStatus then
                   ''Pet status is already '' @ PetStatus_str (status p) @ ''. No transition needed.''
                 else ''Cannot change status from '' @ PetStatus_str (status p) @ '' to ''
                        @ PetStatus_str newStatus @ ''. This transition is not allowed.'')))"
  using assms by (rule changeStatusInternal_Some)

text \<open>C7 at an adopted pet: PENDING is refused, AVAILABLE is taken.\<close>

theorem changeStatusInternal_edge_table_witness:
  "pets (world_with ADOPTED) ''pet-1'' = Some (pet_in ADOPTED)
   \<and> changeStatusInternal (world_with ADOPTED) ''pet-1'' PENDING None 1 =
       Inl (BadRequestException
         ''Cannot change status from ADOPTED to PENDING. This transition is not allowed.'')
   \<and> changeStatusInternal (world_with ADOPTED) ''pet-1'' AVAILABLE None 1 =
       Inr (\<lparr>pet_id = ''pet-1'', status = AVAILABLE, currentOwnerId = ''owner-1'', updatedAt = 1\<rparr>,
            \<lparr>pets = [''pet-1'' \<mapsto> \<lparr>pet_id = ''pet-1'', status = AVAILABLE,
                                  currentOwnerId = ''owner-1'', updatedAt = 1\<rparr>],
             console = [''[PET STATUS CHANGE] pet-1: ADOPTED '' @ arrow
                          @ '' AVAILABLE (system) - System-triggered status change'']\<rparr>)"
  using changeStatusInternal_edge_table [of "world_with ADOPTED" "''pet-1''" "pet_in ADOPTED"
          PENDING None 1]
        changeStatusInternal_edge_table [of "world_with ADOPTED" "''pet-1''" "pet_in ADOPTED"
          AVAILABLE None 1]
  by (simp add: world_with_def pet_in_def in_edge_table_def logStatusChange_def
      status_change_line_def reason_or_default_def truthy_def)

section \<open>Targets reserved to administrators\<close>

text \<open>
  C8, as the claim states it, fails on the service: a SHELTER actor asking for ADOPTED on
  a pet that is AVAILABLE is rejected, but with BadRequestException from the validator,
  which runs before \<open>authorizeStatusUpdate\<close>, and not with ForbiddenException.
\<close>

theorem forbidden_for_sensitive_target_counterexample:
  "updatePetStatus (world_with AVAILABLE) ''pet-1'' ADOPTED ''shelter-1'' SHELTER None 1 =
     Inl (BadRequestException
       ''Cannot change status from AVAILABLE to ADOPTED. This transition is not allowed.'')"
  by (simp add: updatePetStatus_def updatePetStatus_checks_def getPetById_def
      prisma_pet_findUnique_def world_with_def pet_in_def validate_def Let_def
      PetStatus_values_def ALLOWED_TRANSITIONS_def ADMIN_ONLY_TRANSITIONS_def lookup_or_empty_def)

text \<open>
  C8, amended: for an existing pet and an actor whose role is not ADMIN,
  \<open>updatePetStatus\<close> rejects every request whose target is ADOPTED or AVAILABLE before
  writing. The error is ForbiddenException exactly when the target is an ordinary target
  of the pet's status, that is on PENDING to ADOPTED, PENDING to AVAILABLE and IN_CUSTODY
  to AVAILABLE, so these ordinary edges are open to administrators only; on every other
  pair the validator has already rejected the request with BadRequestException.
\<close>

theorem updatePetStatus_non_admin_sensitive_target:
  assumes "pets w petId = Some p" and "userRole \<noteq> ADMIN"
      and "newStatus = ADOPTED \<or> newStatus = AVAILABLE"
  shows "updatePetStatus w petId newStatus userId userRole reason now =
           (if newStatus \<in> set (ordinary_targets (status p)) then
              Inl (ForbiddenException
                (''Only administrators can change pet status to '' @ PetStatus_str newStatus))
            else if status p = newStatus then
              Inl (BadRequestException
                (''Pet status is already '' @ PetStatus_str (status p) @ ''. No transition needed.''))
            else if newStatus \<in> set (elevated_only_targets (status p)) then
              Inl (BadRequestException
                (''Cannot change status from '' @ PetStatus_str (status p) @ '' to ''
                   @ PetStatus_str newStatus @ ''. This action requires ADMIN role.''))
            else
              Inl (BadRequestException
                (''Cannot change status from '' @ PetStatus_str (status p) @ '' to ''
                   @ PetStatus_str newStatus @ ''. This transition is not allowed.'')))"
  using assms ordinary_not_self [of "status p"]
  by (auto simp add: updatePetStatus_def updatePetStatus_checks_def getPetById_Some validate_spec
      authorizeStatusUpdate_def)

text \<open>The amended C8 for a USER who rejects a pending adoption, and for one in custody.\<close>

theorem updatePetStatus_non_admin_sensitive_target_witness:
  "pets (world_with PENDING) ''pet-1'' = Some (pet_in PENDING)
   \<and> USER \<noteq> ADMIN \<and> (AVAILABLE = ADOPTED \<or> AVAILABLE = AVAILABLE)
   \<and> updatePetStatus (world_with PENDING) ''pet-1'' AVAILABLE ''user-1'' USER None 1 =
       Inl (ForbiddenException ''Only administrators can change pet status to AVAILABLE'')
   \<and> updatePetStatus (world_with IN_CUSTODY) ''pet-1'' AVAILABLE ''shelter-1'' SHELTER None 1 =
       Inl (ForbiddenException ''Only administrators can change pet status to AVAILABLE'')"
  using updatePetStatus_non_admin_sensitive_target [of "world_with PENDING" "''pet-1''"
          "pet_in PENDING" USER AVAILABLE "''user-1''" None 1]
        updatePetStatus_non_admin_sensitive_target [of "world_with IN_CUSTODY" "''pet-1''"
          "pet_in IN_CUSTODY" SHELTER AVAILABLE "''shelter-1''" None 1]
  by (simp add: world_with_def pet_in_def)

section \<open>The internal transition and an administrator's call\<close>

text \<open>
  C9, as the claim states it, fails on the service in its last part: with no reason
  given, the administrator's call logs no reason while the internal call logs the default
  reason, so the two log lines differ in more than the actor. The internal line is not
  the line that results from the administrator's line by leaving the actor out.
\<close>

theorem audit_line_differs_in_reason_counterexample:
  "console (snd (projr (changeStatusInternal (world_with AVAILABLE) ''pet-1'' PENDING None 1))) =
     [''[PET STATUS CHANGE] pet-1: AVAILABLE '' @ arrow
        @ '' PENDING (system) - System-triggered status change'']
   \<and> console (snd (projr (updatePetStatus (world_with AVAILABLE) ''pet-1'' PENDING ''admin-1''
        ADMIN None 1))) =
     [''[PET STATUS CHANGE] pet-1: AVAILABLE '' @ arrow @ '' PENDING by admin-1'']
   \<and> console (snd (projr (changeStatusInternal (world_with AVAILABLE) ''pet-1'' PENDING None 1))) \<noteq>
     [status_change_line ''pet-1'' AVAILABLE PENDING None None]"
  by (simp add: changeStatusInternal_def updatePetStatus_def updatePetStatus_checks_def
      updatePetStatus_write_def prisma_pet_update_def authorizeStatusUpdate_def getPetById_def
      prisma_pet_findUnique_def world_with_def pet_in_def validate_def Let_def
      PetStatus_values_def ALLOWED_TRANSITIONS_def ADMIN_ONLY_TRANSITIONS_def lookup_or_empty_def
      logStatusChange_def status_change_line_def reason_or_default_def truthy_def)

text \<open>
  C9, amended: for every store, pet id, requested status, reason, time and user id,
  \<open>changeStatusInternal\<close> and \<open>updatePetStatus\<close> called with role ADMIN either both fail,
  with the same exception, or both succeed, returning the same pet and leaving the same
  pet table. On success each appends one log line, and the two lines differ in the actor
  (the user id, or \<open>(system)\<close>) and, when the reason is absent or empty, in the reason:
  the internal call logs \<open>System-triggered status change\<close>, the administrator's call
  logs none.
\<close>

theorem changeStatusInternal_vs_admin_update:
  "(case (changeStatusInternal w petId newStatus reason now,
          updatePetStatus w petId newStatus userId ADMIN reason now) of
      (Inl e1, Inl e2) \<Rightarrow> e1 = e2
    | (Inr (p1, w1), Inr (p2, w2)) \<Rightarrow>
        p1 = p2 \<and> pets w1 = pets w2
        \<and> console w1 = console w @
            [status_change_line petId (status (the (pets w petId))) newStatus None
               (if truthy reason then reason else Some ''System-triggered status change'')]
        \<and> console w2 = console w @
            [status_change_line petId (status (the (pets w petId))) newStatus (Some userId) reason]
    | _ \<Rightarrow> False)"
proof (cases "pets w petId")
  case None
  then show ?thesis
    by (simp add: changeStatusInternal_def updatePetStatus_def updatePetStatus_checks_def
        getPetById_None)
next
  case (Some p)
  have r: "Some (reason_or_default reason) =
             (if truthy reason then reason else Some ''System-triggered status change'')"
    by (cases reason) (simp_all add: reason_or_default_def truthy_def)
  show ?thesis
    using Some
    by (simp add: changeStatusInternal_def updatePetStatus_def updatePetStatus_checks_def
        getPetById_Some validate_spec authorizeStatusUpdate_def updatePetStatus_write_Some
        prisma_pet_update_Some logStatusChange_def r)
qed

text \<open>
  The amended C9 at a pending pet whose adoption is approved with a reason: both calls
  store ADOPTED, and the lines differ in the actor only.
\<close>

theorem changeStatusInternal_vs_admin_update_witness:
  "(case (changeStatusInternal (world_with PENDING) ''pet-1'' ADOPTED (Some ''Adoption approved'') 1,
          updatePetStatus (world_with PENDING) ''pet-1'' ADOPTED ''admin-1'' ADMIN
            (Some ''Adoption approved'') 1) of
      (Inl e1, Inl e2) \<Rightarrow> e1 = e2
    | (Inr (p1, w1), Inr (p2, w2)) \<Rightarrow>
        p1 = p2 \<and> pets w1 = pets w2
        \<and> console w1 =
            [''[PET STATUS CHANGE] pet-1: PENDING '' @ arrow
               @ '' ADOPTED (system) - Adoption approved'']
        \<and> console w2 =
            [''[PET STATUS CHANGE] pet-1: PENDING '' @ arrow
               @ '' ADOPTED by admin-1 - Adoption approved'']
    | _ \<Rightarrow> False)"
  using changeStatusInternal_vs_admin_update [where w = "world_with PENDING"
          and petId = "''pet-1''" and newStatus = ADOPTED and reason = "Some ''Adoption approved''"
          and now = 1 and userId = "''admin-1''"]
  by (simp add: world_with_def pet_in_def status_change_line_def truthy_def
      split: sum.splits prod.splits)

section \<open>The unreachable branch of the validator\<close>

text \<open>
  C10: every status occurs among the flattened targets of \<open>ALLOWED_TRANSITIONS\<close>, and so
  for every pair of statuses and every role, also an absent one, \<open>validate\<close> does not end
  with the error \<open>Invalid new status\<close>.
\<close>

theorem validate_never_invalid_new_status:
  "n \<in> set (concat (map snd ALLOWED_TRANSITIONS)) \<and>
   validate c n r \<noteq> Inl (BadRequestException (''Invalid new status: '' @ PetStatus_str n))"
proof -
  have "n \<in> set (concat (map snd ALLOWED_TRANSITIONS))"
    using flat_targets by blast
  moreover have "validate c n r \<noteq>
      Inl (BadRequestException (''Invalid new status: '' @ PetStatus_str n))"
    by (simp add: validate_spec)
  ultimately show ?thesis by blast
qed

text \<open>C10 at the pair IN_CUSTODY, ADOPTED, which the validator rejects for another reason.\<close>

theorem validate_never_invalid_new_status_witness:
  "ADOPTED \<in> set (concat (map snd ALLOWED_TRANSITIONS))
   \<and> validate IN_CUSTODY ADOPTED (Some USER) \<noteq>
       Inl (BadRequestException (''Invalid new status: '' @ PetStatus_str ADOPTED))"
  using validate_never_invalid_new_status [of ADOPTED IN_CUSTODY "Some USER"] by simp

end
